theory Spec2Isabelle
  imports Complex_Main
begin

section \<open>Text helpers\<close>

text \<open>
  Text is a list of code points below 256 (ASCII and the Latin-1 supplement). Python's
  \<open>str.lower\<close> lowers the capital letters of both ranges; SQLite's \<open>lower()\<close> lowers
  the ASCII ones only.
\<close>

definition ascii_lower :: "char \<rightharpoonup> char" where
  "ascii_lower = map_of (zip ''ABCDEFGHIJKLMNOPQRSTUVWXYZ'' ''abcdefghijklmnopqrstuvwxyz'')"

definition latin1_lower :: "char \<rightharpoonup> char" where
  "latin1_lower =
     map_of (zip
       [CHR 0xC0, CHR 0xC1, CHR 0xC2, CHR 0xC3, CHR 0xC4, CHR 0xC5, CHR 0xC6, CHR 0xC7,
       CHR 0xC8, CHR 0xC9, CHR 0xCA, CHR 0xCB, CHR 0xCC, CHR 0xCD, CHR 0xCE, CHR 0xCF,
       CHR 0xD0, CHR 0xD1, CHR 0xD2, CHR 0xD3, CHR 0xD4, CHR 0xD5, CHR 0xD6, CHR 0xD8,
       CHR 0xD9, CHR 0xDA, CHR 0xDB, CHR 0xDC, CHR 0xDD, CHR 0xDE]
       [CHR 0xE0, CHR 0xE1, CHR 0xE2, CHR 0xE3, CHR 0xE4, CHR 0xE5, CHR 0xE6, CHR 0xE7,
       CHR 0xE8, CHR 0xE9, CHR 0xEA, CHR 0xEB, CHR 0xEC, CHR 0xED, CHR 0xEE, CHR 0xEF,
       CHR 0xF0, CHR 0xF1, CHR 0xF2, CHR 0xF3, CHR 0xF4, CHR 0xF5, CHR 0xF6, CHR 0xF8,
       CHR 0xF9, CHR 0xFA, CHR 0xFB, CHR 0xFC, CHR 0xFD, CHR 0xFE])"

definition sql_lower_char :: "char \<Rightarrow> char" where
  "sql_lower_char c = (case ascii_lower c of None \<Rightarrow> c | Some l \<Rightarrow> l)"

definition py_lower_char :: "char \<Rightarrow> char" where
  "py_lower_char c =
     (case ascii_lower c of
        Some l \<Rightarrow> l
      | None \<Rightarrow> (case latin1_lower c of None \<Rightarrow> c | Some l \<Rightarrow> l))"

definition sql_lower :: "string \<Rightarrow> string" where
  "sql_lower s = map sql_lower_char s"

definition py_lower :: "string \<Rightarrow> string" where
  "py_lower s = map py_lower_char s"

text \<open>
  The characters that \<open>str.strip()\<close> removes, among the code points below 256: 9-13,
  28-32, 133 and 160.
\<close>

definition is_space :: "char \<Rightarrow> bool" where
  "is_space c =
     (let n = (of_char c :: nat)
      in (9 \<le> n \<and> n \<le> 13) \<or> (28 \<le> n \<and> n \<le> 32) \<or> n = 133 \<or> n = 160)"

definition strip :: "string \<Rightarrow> string" where
  "strip s = rev (dropWhile is_space (rev (dropWhile is_space s)))"

text \<open>
  SQLite's \<open>LIKE\<close>: \<open>%\<close> matches any run of characters, \<open>_\<close> any one character,
  every other character matches itself up to ASCII case.
\<close>

fun sql_like :: "string \<Rightarrow> string \<Rightarrow> bool" where
  "sql_like [] s = (s = [])"
| "sql_like (p # ps) s =
     (if p = CHR ''%''
      then (sql_like ps s \<or> (case s of [] \<Rightarrow> False | _ # t \<Rightarrow> sql_like (p # ps) t))
      else (case s of
              [] \<Rightarrow> False
            | c # t \<Rightarrow> (p = CHR ''_'' \<or> sql_lower_char p = sql_lower_char c) \<and> sql_like ps t))"

section \<open>The books table and the connection\<close>

text \<open>
  A timestamp stands for the string \<open>datetime.now().isoformat()\<close>; the clock reading is
  a parameter of every operation that takes one. Integers are Python's, without bound.
  A price is a finite floating-point number, which the modelled code only stores and
  compares: the type is that of the rationals. The floats that are no numbers (NaN, which
  SQLite stores as NULL, and the infinities) are outside this type.
\<close>

type_synonym timestamp = nat

record book =
  b_id :: int
  title :: string
  author :: string
  quantity :: int
  price :: rat
  date_added :: timestamp
  last_updated :: timestamp

text \<open>The dictionary passed to \<open>add_book\<close>: the five keys it reads.\<close>

record book_data =
  d_id :: int
  d_title :: string
  d_author :: string
  d_quantity :: int
  d_price :: rat

text \<open>
  The \<open>updates\<close> dictionary: a key is present when its field is \<open>Some\<close>. The same
  dictionary is the changeset of an update session.
\<close>

record updates =
  u_id :: "int option"
  u_title :: "string option"
  u_author :: "string option"
  u_quantity :: "int option"
  u_price :: "rat option"

definition no_updates :: updates where
  "no_updates = \<lparr>u_id = None, u_title = None, u_author = None, u_quantity = None, u_price = None\<rparr>"

definition updates_empty :: "updates \<Rightarrow> bool" where
  "updates_empty u =
     (u_id u = None \<and> u_title u = None \<and> u_author u = None \<and> u_quantity u = None \<and> u_price u = None)"

text \<open>\<open>updates.get(key, default)\<close>: the entry when the key is present, the default otherwise.\<close>

definition dict_get :: "'a option \<Rightarrow> 'a \<Rightarrow> 'a" where
  "dict_get entry dflt = (case entry of None \<Rightarrow> dflt | Some v \<Rightarrow> v)"

text \<open>A condition on a key that may be absent: an absent key imposes nothing.\<close>

definition holds :: "'a option \<Rightarrow> ('a \<Rightarrow> bool) \<Rightarrow> bool" where
  "holds v c = (case v of None \<Rightarrow> True | Some x \<Rightarrow> c x)"

text \<open>
  What the code can raise. \<open>SqliteError\<close> is \<open>sqlite3.Error\<close> with its subclasses.
  \<open>OverflowError\<close> is raised by \<open>cursor.execute\<close> when an integer parameter is outside
  SQLite's signed 64 bits; it is no \<open>sqlite3.Error\<close>. \<open>TypeError\<close> is raised by the
  display of a book that is \<open>None\<close>.
\<close>

datatype exn = SqliteError | OverflowError | TypeError

definition int64 :: "int \<Rightarrow> bool" where
  "int64 v = (- (2 ^ 63) \<le> v \<and> v < 2 ^ 63)"

text \<open>
  The connection: \<open>rows\<close> is the table as the connection's statements see it,
  \<open>saved\<close> the table as of the last commit, \<open>in_txn\<close> whether a transaction is open.
  The column \<open>id\<close> is the primary key.
\<close>

record db =
  rows :: "book list"
  saved :: "book list"
  in_txn :: bool

definition commit :: "db \<Rightarrow> db" where
  "commit d = d\<lparr>saved := rows d, in_txn := False\<rparr>"

definition rollback :: "db \<Rightarrow> db" where
  "rollback d = d\<lparr>rows := saved d, in_txn := False\<rparr>"

text \<open>
  \<open>conn.execute("BEGIN TRANSACTION")\<close> raises inside an open transaction. Before an
  INSERT, UPDATE or DELETE that has parsed, the \<open>sqlite3\<close> module opens a transaction
  itself when none is open; the parameters are bound after that, and the statement runs
  last.
\<close>

definition begin_transaction :: "db \<Rightarrow> exn + db" where
  "begin_transaction d = (if in_txn d then Inl SqliteError else Inr (d\<lparr>in_txn := True\<rparr>))"

definition implicit_begin :: "db \<Rightarrow> db" where
  "implicit_begin d = d\<lparr>in_txn := True\<rparr>"

text \<open>
  A statement can raise \<open>sqlite3.Error\<close> for reasons outside the table (an I/O error,
  a locked file). \<open>Fails\<close> forces that at the statement of the operation which takes the
  parameter; \<open>Works\<close> is the run without such a failure.
\<close>

datatype io = Works | Fails

definition ids :: "db \<Rightarrow> int list" where
  "ids d = map b_id (rows d)"

definition new_row :: "book_data \<Rightarrow> timestamp \<Rightarrow> book" where
  "new_row data now =
     \<lparr>b_id = d_id data, title = d_title data, author = d_author data,
      quantity = d_quantity data, price = d_price data,
      date_added = now, last_updated = now\<rparr>"

text \<open>
  The methods of \<open>BookDatabase\<close> that write return the connection and either what the
  method returns or the exception that leaves it.

  \<open>add_book\<close>: the INSERT raises when the id is already a primary key; the method
  catches \<open>sqlite3.Error\<close> and returns False without a rollback, otherwise it commits.
\<close>

definition add_book :: "io \<Rightarrow> db \<Rightarrow> book_data \<Rightarrow> timestamp \<Rightarrow> db \<times> (exn + bool)" where
  "add_book f d data now =
     (let d1 = implicit_begin d in
      if \<not> (int64 (d_id data) \<and> int64 (d_quantity data)) then (d1, Inl OverflowError)
      else if f = Fails \<or> d_id data \<in> set (ids d) then (d1, Inr False)
      else (commit (d1\<lparr>rows := rows d @ [new_row data now]\<rparr>), Inr True))"

definition set_fields :: "updates \<Rightarrow> timestamp \<Rightarrow> book \<Rightarrow> book" where
  "set_fields u now r =
     r\<lparr>b_id := dict_get (u_id u) (b_id r),
       title := dict_get (u_title u) (title r),
       author := dict_get (u_author u) (author r),
       quantity := dict_get (u_quantity u) (quantity r),
       price := dict_get (u_price u) (price r),
       last_updated := now\<rparr>"

text \<open>
  \<open>update_book\<close>. With an empty dictionary the SET clause starts with a comma and the
  statement does not parse; setting the id to one that another row owns violates the
  primary key. Both raise \<open>sqlite3.Error\<close>, which the method turns into False.
  Otherwise the matching rows are rewritten, the method commits and returns
  \<open>rowcount > 0\<close>.
\<close>

definition update_book :: "db \<Rightarrow> int \<Rightarrow> updates \<Rightarrow> timestamp \<Rightarrow> db \<times> (exn + bool)" where
  "update_book d book_id u now =
     (if updates_empty u then (d, Inr False)
      else let d1 = implicit_begin d in
        if \<not> (holds (u_id u) int64 \<and> holds (u_quantity u) int64 \<and> int64 book_id)
        then (d1, Inl OverflowError)
        else if book_id \<in> set (ids d) \<and>
                (case u_id u of None \<Rightarrow> False | Some v \<Rightarrow> v \<noteq> book_id \<and> v \<in> set (ids d))
        then (d1, Inr False)
        else (commit (d1\<lparr>rows := map (\<lambda>r. if b_id r = book_id then set_fields u now r else r)
                                    (rows d)\<rparr>),
              Inr (book_id \<in> set (ids d))))"

text \<open>\<open>delete_book\<close> has no handler: whatever its statement raises leaves the method.\<close>

definition delete_book :: "io \<Rightarrow> db \<Rightarrow> int \<Rightarrow> db \<times> (exn + bool)" where
  "delete_book f d book_id =
     (let d1 = implicit_begin d in
      if \<not> int64 book_id then (d1, Inl OverflowError)
      else if f = Fails then (d1, Inl SqliteError)
      else (commit (d1\<lparr>rows := filter (\<lambda>r. b_id r \<noteq> book_id) (rows d)\<rparr>),
            Inr (book_id \<in> set (ids d))))"

text \<open>The methods that only read leave the connection as it is.\<close>

definition get_book :: "db \<Rightarrow> int \<Rightarrow> exn + book option" where
  "get_book d book_id =
     (if \<not> int64 book_id then Inl OverflowError
      else Inr (find (\<lambda>r. b_id r = book_id) (rows d)))"

definition get_all_books :: "db \<Rightarrow> book list" where
  "get_all_books d = rows d"

text \<open>The keyword arguments of \<open>search_books\<close>; other keywords add no condition.\<close>

record filters =
  f_title :: "string option"
  f_author :: "string option"
  f_id :: "int option"
  f_max_price :: "rat option"
  f_min_price :: "rat option"
  f_min_stock :: "int option"

definition no_filters :: filters where
  "no_filters = \<lparr>f_title = None, f_author = None, f_id = None,
                 f_max_price = None, f_min_price = None, f_min_stock = None\<rparr>"

definition search_books :: "db \<Rightarrow> filters \<Rightarrow> exn + book list" where
  "search_books d fs =
     (if \<not> (holds (f_id fs) int64 \<and> holds (f_min_stock fs) int64) then Inl OverflowError
      else Inr (filter (\<lambda>r.
        holds (f_title fs) (\<lambda>v. sql_like (''%'' @ v @ ''%'') (title r)) \<and>
        holds (f_author fs) (\<lambda>v. sql_like (''%'' @ v @ ''%'') (author r)) \<and>
        holds (f_id fs) (\<lambda>v. b_id r = v) \<and>
        holds (f_max_price fs) (\<lambda>v. price r \<le> v) \<and>
        holds (f_min_price fs) (\<lambda>v. price r \<ge> v) \<and>
        holds (f_min_stock fs) (\<lambda>v. quantity r < v))
      (rows d)))"

text \<open>
  \<open>is_duplicate_title_author\<close>: the query lowers the columns with SQLite's
  \<open>lower()\<close> and compares them with the arguments lowered by Python. The exclusion is
  added under \<open>if exclude_id:\<close>, so neither \<open>None\<close> nor \<open>0\<close> excludes a row or
  binds a parameter.
\<close>

definition is_duplicate_title_author :: "db \<Rightarrow> string \<Rightarrow> string \<Rightarrow> int option \<Rightarrow> exn + bool" where
  "is_duplicate_title_author d t a exclude_id =
     (if \<not> holds exclude_id (\<lambda>e. e = 0 \<or> int64 e) then Inl OverflowError
      else Inr (list_ex
        (\<lambda>r. sql_lower (title r) = py_lower t \<and> sql_lower (author r) = py_lower a \<and>
             holds exclude_id (\<lambda>e. e = 0 \<or> b_id r \<noteq> e))
        (rows d)))"

section \<open>The manager: validation\<close>

text \<open>
  What the manager prints, one constructor per message; panels, tables and prompts are
  not recorded.
\<close>

datatype msg =
    NotFound | Added | Deleted | Updated | UpdateFailed | Cancel | AddFailed | NoChanges
  | Duplicate | IdExists | IdNotNumber | IdNotPositive | FieldEmpty
  | QuantityNegative | PriceNegative | QuantityNotNumber | PriceNotNumber | NotNumber
  | IdUnchanged | TitleUnchanged | AuthorUnchanged | QuantityUnchanged | PriceUnchanged
  | FailedToUpdateId | ErrorDuringUpdate | DeleteFailed

text \<open>
  The validators return \<open>(is_valid, error_message)\<close>; here \<open>None\<close> is \<open>(True, "")\<close>
  and \<open>Some m\<close> is \<open>(False, m)\<close>. Those that query the table can raise what the query
  raises.
\<close>

definition validate_id :: "db \<Rightarrow> int \<Rightarrow> int option \<Rightarrow> exn + msg option" where
  "validate_id d book_id exclude_id =
     (if book_id \<le> 0 then Inr (Some IdNotPositive)
      else (case get_book d book_id of
              Inl e \<Rightarrow> Inl e
            | Inr None \<Rightarrow> Inr None
            | Inr (Some existing) \<Rightarrow>
                if exclude_id = None \<or> Some (b_id existing) \<noteq> exclude_id
                then Inr (Some IdExists) else Inr None))"

definition validate_text :: "string \<Rightarrow> msg option" where
  "validate_text t = (if strip t = [] then Some FieldEmpty else None)"

definition validate_quantity :: "int \<Rightarrow> msg option" where
  "validate_quantity qty = (if qty < 0 then Some QuantityNegative else None)"

definition validate_price :: "rat \<Rightarrow> msg option" where
  "validate_price p = (if p < 0 then Some PriceNegative else None)"

definition validate_duplicate :: "db \<Rightarrow> string \<Rightarrow> string \<Rightarrow> int option \<Rightarrow> exn + msg option" where
  "validate_duplicate d t a exclude_id =
     (case is_duplicate_title_author d t a exclude_id of
        Inl e \<Rightarrow> Inl e
      | Inr True \<Rightarrow> Inr (Some Duplicate)
      | Inr False \<Rightarrow> Inr None)"

section \<open>The manager: one pass over the fields of a book\<close>

text \<open>
  What \<open>Prompt.ask\<close> returns. Title and author are used as text. For a number the code
  first compares the lowercased reply with \<open>"x"\<close> (\<open>Skip\<close>), then parses it:
  \<open>Malformed\<close> is a reply that \<open>int()\<close>, \<open>float()\<close> or \<open>isdigit()\<close> refuses,
  \<open>Value v\<close> one that parses to \<open>v\<close>. A reply that passed \<open>isdigit()\<close> is a natural
  number.
\<close>

datatype 'a reply = Skip | Malformed | Value 'a

datatype choice = ChId | ChTitle | ChAuthor | ChQuantity | ChPrice | ChAll

record step =
  choice :: choice
  r_id :: "int reply"
  r_title :: string
  r_author :: string
  r_quantity :: "nat reply"
  r_price :: "rat reply"
  now :: timestamp

text \<open>
  Each handler returns the dictionary, its boolean result and what it printed. The
  handlers of id, title and author query the table and can raise; they print nothing
  before the query.
\<close>

definition handle_id_update ::
  "db \<Rightarrow> book \<Rightarrow> updates \<Rightarrow> int reply \<Rightarrow> exn + (updates \<times> bool \<times> msg list)" where
  "handle_id_update d book u r =
     (case r of
        Skip \<Rightarrow> Inr (u, False, [])
      | Malformed \<Rightarrow> Inr (u, False, [IdNotNumber])
      | Value new_id_val \<Rightarrow>
          if new_id_val = b_id book then Inr (u, False, [IdUnchanged])
          else (case validate_id d new_id_val (Some (b_id book)) of
                  Inl e \<Rightarrow> Inl e
                | Inr (Some m) \<Rightarrow> Inr (u, False, [m])
                | Inr None \<Rightarrow> Inr (u\<lparr>u_id := Some new_id_val\<rparr>, True, [])))"

definition handle_title_update ::
  "db \<Rightarrow> book \<Rightarrow> updates \<Rightarrow> string \<Rightarrow> exn + (updates \<times> bool \<times> msg list)" where
  "handle_title_update d book u t =
     (if py_lower t = ''x'' then Inr (u, False, [])
      else if strip t = title book then Inr (u, False, [TitleUnchanged])
      else (case validate_text t of
              Some m \<Rightarrow> Inr (u, False, [m])
            | None \<Rightarrow>
                let author_to_check = dict_get (u_author u) (author book)
                in (case validate_duplicate d (strip t) author_to_check (Some (b_id book)) of
                      Inl e \<Rightarrow> Inl e
                    | Inr (Some m) \<Rightarrow> Inr (u, False, [m])
                    | Inr None \<Rightarrow> Inr (u\<lparr>u_title := Some (strip t)\<rparr>, True, []))))"

definition handle_author_update ::
  "db \<Rightarrow> book \<Rightarrow> updates \<Rightarrow> string \<Rightarrow> exn + (updates \<times> bool \<times> msg list)" where
  "handle_author_update d book u a =
     (if py_lower a = ''x'' then Inr (u, False, [])
      else if strip a = author book then Inr (u, False, [AuthorUnchanged])
      else (case validate_text a of
              Some m \<Rightarrow> Inr (u, False, [m])
            | None \<Rightarrow>
                let title_to_check = dict_get (u_title u) (title book)
                in (case validate_duplicate d title_to_check (strip a) (Some (b_id book)) of
                      Inl e \<Rightarrow> Inl e
                    | Inr (Some m) \<Rightarrow> Inr (u, False, [m])
                    | Inr None \<Rightarrow> Inr (u\<lparr>u_author := Some (strip a)\<rparr>, True, []))))"

definition handle_quantity_update :: "book \<Rightarrow> updates \<Rightarrow> nat reply \<Rightarrow> updates \<times> bool \<times> msg list" where
  "handle_quantity_update book u r =
     (case r of
        Skip \<Rightarrow> (u, False, [])
      | Malformed \<Rightarrow> (u, False, [NotNumber])
      | Value n \<Rightarrow>
          let qty_val = int n in
          if qty_val = quantity book then (u, False, [QuantityUnchanged])
          else (case validate_quantity qty_val of
                  Some m \<Rightarrow> (u, False, [m])
                | None \<Rightarrow> (u\<lparr>u_quantity := Some qty_val\<rparr>, True, [])))"

definition handle_price_update :: "book \<Rightarrow> updates \<Rightarrow> rat reply \<Rightarrow> updates \<times> bool \<times> msg list" where
  "handle_price_update book u r =
     (case r of
        Skip \<Rightarrow> (u, False, [])
      | Malformed \<Rightarrow> (u, False, [NotNumber])
      | Value price_val \<Rightarrow>
          if price_val = price book then (u, False, [PriceUnchanged])
          else (case validate_price price_val of
                  Some m \<Rightarrow> (u, False, [m])
                | None \<Rightarrow> (u\<lparr>u_price := Some price_val\<rparr>, True, [])))"

text \<open>
  \<open>_validate_combined_update\<close> reads the title and the author of the dictionary; its one
  call site has checked that both keys are there, and passes them here.
\<close>

definition validate_combined_update :: "db \<Rightarrow> string \<Rightarrow> string \<Rightarrow> int \<Rightarrow> exn + (bool \<times> msg list)" where
  "validate_combined_update d t a book_id =
     (case validate_duplicate d t a (Some book_id) of
        Inl e \<Rightarrow> Inl e
      | Inr (Some m) \<Rightarrow> Inr (False, [m])
      | Inr None \<Rightarrow> Inr (True, []))"

text \<open>
  \<open>_process_update_choice\<close> returns what it printed and either an exception from one
  of its queries or its result: \<open>None\<close> when the combined check fails, the empty
  dictionary when no handler made a change, the dictionary otherwise.
\<close>

definition process_update_choice :: "db \<Rightarrow> book \<Rightarrow> step \<Rightarrow> msg list \<times> (exn + updates option)" where
  "process_update_choice d book st =
     (let c = choice st in
      case (if c = ChId \<or> c = ChAll
            then handle_id_update d book no_updates (r_id st)
            else Inr (no_updates, False, [])) of
        Inl e \<Rightarrow> ([], Inl e)
      | Inr (u1, c1, m1) \<Rightarrow>
     (case (if c = ChTitle \<or> c = ChAll
            then handle_title_update d book u1 (r_title st)
            else Inr (u1, False, [])) of
        Inl e \<Rightarrow> (m1, Inl e)
      | Inr (u2, c2, m2) \<Rightarrow>
     (case (if c = ChAuthor \<or> c = ChAll
            then handle_author_update d book u2 (r_author st)
            else Inr (u2, False, [])) of
        Inl e \<Rightarrow> (m1 @ m2, Inl e)
      | Inr (u3, c3, m3) \<Rightarrow>
     (let (u4, c4, m4) = (if c = ChQuantity \<or> c = ChAll
                          then handle_quantity_update book u3 (r_quantity st)
                          else (u3, False, []));
          (u5, c5, m5) = (if c = ChPrice \<or> c = ChAll
                          then handle_price_update book u4 (r_price st)
                          else (u4, False, []));
          changes_made = (c1 \<or> c2 \<or> c3 \<or> c4 \<or> c5);
          ms = m1 @ m2 @ m3 @ m4 @ m5
      in (case (u_title u5, u_author u5) of
            (Some t, Some a) \<Rightarrow>
              (case validate_combined_update d t a (b_id book) of
                 Inl e \<Rightarrow> (ms, Inl e)
               | Inr (False, m6) \<Rightarrow> (ms @ m6, Inr None)
               | Inr (True, m6) \<Rightarrow>
                   (ms @ m6, Inr (Some (if changes_made then u5 else no_updates))))
          | _ \<Rightarrow> (ms, Inr (Some (if changes_made then u5 else no_updates))))))))"

section \<open>The manager: committing a changeset\<close>

text \<open>
  \<open>_apply_updates\<close>. The two \<open>io\<close> parameters force a failure of the INSERT and of the
  DELETE of the identifier change. The inner handler catches \<open>sqlite3.Error\<close> and rolls
  back; the outer handler catches every other exception, and those of the statements
  outside the inner \<open>try\<close>, and only prints.
\<close>

definition apply_updates :: "io \<Rightarrow> io \<Rightarrow> db \<Rightarrow> int \<Rightarrow> updates \<Rightarrow> timestamp \<Rightarrow> db \<times> msg list" where
  "apply_updates fi fd d book_id u now' =
     (if updates_empty u then (d, [NoChanges])
      else (case u_id u of
              Some new_id \<Rightarrow>
                (case get_book d book_id of
                   Inl e \<Rightarrow> (d, [ErrorDuringUpdate])
                 | Inr None \<Rightarrow> (d, [NotFound])
                 | Inr (Some book) \<Rightarrow>
                     let new_book =
                           \<lparr>d_id = new_id,
                            d_title = dict_get (u_title u) (title book),
                            d_author = dict_get (u_author u) (author book),
                            d_quantity = dict_get (u_quantity u) (quantity book),
                            d_price = dict_get (u_price u) (price book)\<rparr>
                     in (case begin_transaction d of
                           Inl e \<Rightarrow> (d, [ErrorDuringUpdate])
                         | Inr d0 \<Rightarrow>
                             (case add_book fi d0 new_book now' of
                                (d1, Inl e) \<Rightarrow>
                                  if e = SqliteError then (rollback d1, [FailedToUpdateId])
                                  else (d1, [ErrorDuringUpdate])
                              | (d1, Inr True) \<Rightarrow>
                                  (case delete_book fd d1 book_id of
                                     (d2, Inl e) \<Rightarrow>
                                       if e = SqliteError then (rollback d2, [FailedToUpdateId])
                                       else (d2, [ErrorDuringUpdate])
                                   | (d2, Inr deleted) \<Rightarrow> (commit d2, [Updated]))
                              | (d1, Inr False) \<Rightarrow> (rollback d1, [UpdateFailed]))))
            | None \<Rightarrow>
                (case update_book d book_id u now' of
                   (d1, Inl e) \<Rightarrow> (d1, [ErrorDuringUpdate])
                 | (d1, Inr True) \<Rightarrow> (d1, [Updated])
                 | (d1, Inr False) \<Rightarrow> (d1, [UpdateFailed]))))"

section \<open>The manager: the update session\<close>

text \<open>
  A session reads a script: the replies to the prompt for the book to update, then one
  \<open>step\<close> for each pass of the loop. The end of a script is the reply \<open>x\<close>. The loop
  shows the book before it asks for a choice, which raises \<open>TypeError\<close> when the
  refreshed book is \<open>None\<close>. No method of the manager catches an exception that
  reaches it: the session then ends as \<open>Crashed\<close>, with the connection as it was left.
\<close>

datatype ending = Back | Crashed exn

definition prepend :: "msg list \<Rightarrow> db \<times> msg list \<times> ending \<Rightarrow> db \<times> msg list \<times> ending" where
  "prepend ms r = (case r of (d, ms', e) \<Rightarrow> (d, ms @ ms', e))"

fun get_book_to_update :: "db \<Rightarrow> nat reply list \<Rightarrow> msg list \<times> (exn + book option)" where
  "get_book_to_update d [] = ([], Inr None)"
| "get_book_to_update d (Skip # rs) = ([], Inr None)"
| "get_book_to_update d (Malformed # rs) =
     (case get_book_to_update d rs of (ms, b) \<Rightarrow> (IdNotNumber # ms, b))"
| "get_book_to_update d (Value n # rs) =
     (case get_book d (int n) of
        Inl e \<Rightarrow> ([], Inl e)
      | Inr None \<Rightarrow> (case get_book_to_update d rs of (ms, b) \<Rightarrow> (NotFound # ms, b))
      | Inr (Some book) \<Rightarrow> ([], Inr (Some book)))"

fun update_loop :: "db \<Rightarrow> book option \<Rightarrow> step list \<Rightarrow> db \<times> msg list \<times> ending" where
  "update_loop d None sts = (d, [], Crashed TypeError)"
| "update_loop d (Some book) [] = (d, [Cancel], Back)"
| "update_loop d (Some book) (st # sts) =
     (case process_update_choice d book st of
        (ms, Inl e) \<Rightarrow> (d, ms, Crashed e)
      | (ms, Inr None) \<Rightarrow> prepend ms (update_loop d (Some book) sts)
      | (ms, Inr (Some u)) \<Rightarrow>
          if \<not> updates_empty u
          then (case apply_updates Works Works d (b_id book) u (now st) of
                  (d1, ms1) \<Rightarrow>
                    (case get_book d1 (dict_get (u_id u) (b_id book)) of
                       Inl e \<Rightarrow> (d1, ms @ ms1, Crashed e)
                     | Inr refreshed \<Rightarrow> prepend (ms @ ms1) (update_loop d1 refreshed sts)))
          else prepend (ms @ [NoChanges]) (update_loop d (Some book) sts))"

definition manager_update_book :: "db \<Rightarrow> nat reply list \<Rightarrow> step list \<Rightarrow> db \<times> msg list \<times> ending" where
  "manager_update_book d sel sts =
     (case get_book_to_update d sel of
        (ms, Inl e) \<Rightarrow> (d, ms, Crashed e)
      | (ms, Inr None) \<Rightarrow> (d, ms, Back)
      | (ms, Inr (Some book)) \<Rightarrow> prepend ms (update_loop d (Some book) sts))"

section \<open>The manager: adding and deleting\<close>

text \<open>
  One pass of the loop of \<open>BookManager.add_book\<close>: the replies to its five prompts and
  the clock. A pass ends by going round again (\<open>Again\<close>), by returning (\<open>Return\<close>) or
  with an exception.
\<close>

record add_reply =
  a_id :: "nat reply"
  a_title :: string
  a_author :: string
  a_quantity :: "nat reply"
  a_price :: "rat reply"
  a_now :: timestamp

datatype pass = Again | Return | Raised exn

definition add_attempt :: "db \<Rightarrow> add_reply \<Rightarrow> db \<times> msg list \<times> pass" where
  "add_attempt d a =
     (case a_id a of
        Skip \<Rightarrow> (d, [Cancel], Return)
      | Malformed \<Rightarrow> (d, [IdNotNumber], Again)
      | Value n \<Rightarrow>
     (case validate_id d (int n) None of
        Inl e \<Rightarrow> (d, [], Raised e)
      | Inr (Some m) \<Rightarrow> (d, [m], Again)
      | Inr None \<Rightarrow>
     (if py_lower (a_title a) = ''x'' then (d, [Cancel], Return) else
     (case validate_text (a_title a) of
        Some m \<Rightarrow> (d, [m], Again)
      | None \<Rightarrow>
     (if py_lower (a_author a) = ''x'' then (d, [Cancel], Return) else
     (case validate_text (a_author a) of
        Some m \<Rightarrow> (d, [m], Again)
      | None \<Rightarrow>
     (case validate_duplicate d (strip (a_title a)) (strip (a_author a)) None of
        Inl e \<Rightarrow> (d, [], Raised e)
      | Inr (Some m) \<Rightarrow> (d, [m], Again)
      | Inr None \<Rightarrow>
     (case a_quantity a of
        Skip \<Rightarrow> (d, [Cancel], Return)
      | Malformed \<Rightarrow> (d, [QuantityNotNumber], Again)
      | Value q \<Rightarrow>
     (case validate_quantity (int q) of
        Some m \<Rightarrow> (d, [m], Again)
      | None \<Rightarrow>
     (case a_price a of
        Skip \<Rightarrow> (d, [Cancel], Return)
      | Malformed \<Rightarrow> (d, [PriceNotNumber], Again)
      | Value p \<Rightarrow>
     (case validate_price p of
        Some m \<Rightarrow> (d, [m], Again)
      | None \<Rightarrow>
     (case add_book Works d
             \<lparr>d_id = int n, d_title = strip (a_title a), d_author = strip (a_author a),
              d_quantity = int q, d_price = p\<rparr> (a_now a) of
        (d1, Inl e) \<Rightarrow> (d1, [], Raised e)
      | (d1, Inr True) \<Rightarrow> (d1, [Added], Return)
      | (d1, Inr False) \<Rightarrow> (d1, [AddFailed], Return)))))))))))))"

fun manager_add_book :: "db \<Rightarrow> add_reply list \<Rightarrow> db \<times> msg list \<times> ending" where
  "manager_add_book d [] = (d, [Cancel], Back)"
| "manager_add_book d (a # as) =
     (case add_attempt d a of
        (d1, ms, Again) \<Rightarrow> prepend ms (manager_add_book d1 as)
      | (d1, ms, Return) \<Rightarrow> (d1, ms, Back)
      | (d1, ms, Raised e) \<Rightarrow> (d1, ms, Crashed e))"

text \<open>
  One pass of the loop of \<open>BookManager.delete_book\<close>: the reply to the id prompt and
  whether the confirmation was \<open>y\<close>.
\<close>

record delete_reply =
  x_id :: "nat reply"
  x_confirm :: bool

definition delete_attempt :: "db \<Rightarrow> delete_reply \<Rightarrow> db \<times> msg list \<times> pass" where
  "delete_attempt d a =
     (case x_id a of
        Skip \<Rightarrow> (d, [Cancel], Return)
      | Malformed \<Rightarrow> (d, [NotNumber], Again)
      | Value n \<Rightarrow>
          (case get_book d (int n) of
             Inl e \<Rightarrow> (d, [], Raised e)
           | Inr None \<Rightarrow> (d, [NotFound], Again)
           | Inr (Some book) \<Rightarrow>
               if x_confirm a
               then (case delete_book Works d (int n) of
                       (d1, Inl e) \<Rightarrow> (d1, [], Raised e)
                     | (d1, Inr True) \<Rightarrow> (d1, [Deleted], Return)
                     | (d1, Inr False) \<Rightarrow> (d1, [DeleteFailed], Return))
               else (d, [], Return)))"

fun manager_delete_book :: "db \<Rightarrow> delete_reply list \<Rightarrow> db \<times> msg list \<times> ending" where
  "manager_delete_book d [] = (d, [Cancel], Back)"
| "manager_delete_book d (a # as) =
     (case delete_attempt d a of
        (d1, ms, Again) \<Rightarrow> prepend ms (manager_delete_book d1 as)
      | (d1, ms, Return) \<Rightarrow> (d1, ms, Back)
      | (d1, ms, Raised e) \<Rightarrow> (d1, ms, Crashed e))"

section \<open>The stores of the scenarios\<close>

definition book_3001 :: "timestamp \<Rightarrow> book" where
  "book_3001 t0 =
     \<lparr>b_id = 3001, title = ''A'', author = ''B'', quantity = 5, price = 10,
      date_added = t0, last_updated = t0\<rparr>"

definition store_3001 :: "timestamp \<Rightarrow> db" where
  "store_3001 t0 = \<lparr>rows = [book_3001 t0], saved = [book_3001 t0], in_txn = False\<rparr>"

definition book_xy :: "int \<Rightarrow> string \<Rightarrow> string \<Rightarrow> book" where
  "book_xy i t a =
     \<lparr>b_id = i, title = t, author = a, quantity = 5, price = 10,
      date_added = 1, last_updated = 1\<rparr>"

definition store_xy :: "string \<Rightarrow> string \<Rightarrow> db" where
  "store_xy t a =
     \<lparr>rows = [book_xy 1 t a, book_xy 2 ''Z'' ''W''],
      saved = [book_xy 1 t a, book_xy 2 ''Z'' ''W''],
      in_txn = False\<rparr>"

definition all_fields :: "string \<Rightarrow> string \<Rightarrow> timestamp \<Rightarrow> step" where
  "all_fields t a t1 =
     \<lparr>choice = ChAll, r_id = Skip, r_title = t, r_author = a,
      r_quantity = Skip, r_price = Skip, now = t1\<rparr>"

definition id_only :: "int \<Rightarrow> timestamp \<Rightarrow> step" where
  "id_only j t1 =
     \<lparr>choice = ChId, r_id = Value j, r_title = [], r_author = [],
      r_quantity = Skip, r_price = Skip, now = t1\<rparr>"

section \<open>Properties of stores and of replies\<close>


text \<open>
  The natural key: rows with different ids differ in the lowercased title or in the
  lowercased author.
\<close>

definition natural_key_unique :: "db \<Rightarrow> bool" where
  "natural_key_unique d =
     (\<forall>r1 \<in> set (rows d). \<forall>r2 \<in> set (rows d).
        b_id r1 \<noteq> b_id r2 \<longrightarrow>
        \<not> (py_lower (title r1) = py_lower (title r2) \<and>
           py_lower (author r1) = py_lower (author r2)))"





text \<open>Every title and author in the table is stored stripped of surrounding whitespace.\<close>

definition texts_stripped :: "db \<Rightarrow> bool" where
  "texts_stripped d =
     (\<forall>r \<in> set (rows d). strip (title r) = title r \<and> strip (author r) = author r)"

text \<open>
  A step that proposes nothing new for the book: every reply the chosen fields ask for is
  the skip reply or the current value of the field.
\<close>

definition keeps_text :: "string \<Rightarrow> string \<Rightarrow> bool" where
  "keeps_text current t = (py_lower t = ''x'' \<or> t = current)"

definition keeps_number :: "'a \<Rightarrow> 'a reply \<Rightarrow> bool" where
  "keeps_number current r = (case r of Skip \<Rightarrow> True | Malformed \<Rightarrow> False | Value v \<Rightarrow> v = current)"

definition echoes :: "book \<Rightarrow> step \<Rightarrow> bool" where
  "echoes book st =
     (let c = choice st in
      (c = ChId \<or> c = ChAll \<longrightarrow> keeps_number (b_id book) (r_id st)) \<and>
      (c = ChTitle \<or> c = ChAll \<longrightarrow> keeps_text (title book) (r_title st)) \<and>
      (c = ChAuthor \<or> c = ChAll \<longrightarrow> keeps_text (author book) (r_author st)) \<and>
      (c = ChQuantity \<or> c = ChAll \<longrightarrow> keeps_number (quantity book) (map_reply int (r_quantity st))) \<and>
      (c = ChPrice \<or> c = ChAll \<longrightarrow> keeps_number (price book) (r_price st)))"


section \<open>Text\<close>

lemma strip_strip: "strip (strip s) = strip s"
proof (cases "dropWhile is_space s")
  case Nil
  have e: "strip s = []"
    unfolding strip_def Nil by simp
  show ?thesis
    unfolding e by (simp add: strip_def)
next
  case (Cons x xs)
  then have nx: "\<not> is_space x"
    by (simp add: dropWhile_eq_Cons_conv)
  have s: "strip s = x # rev (dropWhile is_space (rev xs))"
    using nx by (simp add: strip_def Cons dropWhile_append3)
  show ?thesis
    unfolding s using nx by (simp add: strip_def dropWhile_append3)
qed



lemmas lower_defs =
  py_lower_def sql_lower_def py_lower_char_def sql_lower_char_def ascii_lower_def
  latin1_lower_def

section \<open>The database handler\<close>

lemma get_book_Some:
  assumes "get_book d i = Inr (Some b)"
  shows "b_id b = i" and "b \<in> set (rows d)" and "int64 i" and "i \<in> set (ids d)"
  using assms by (auto simp: get_book_def ids_def find_Some_iff split: if_splits)

lemma get_book_None: "get_book d i = Inr None \<longleftrightarrow> int64 i \<and> i \<notin> set (ids d)"
  by (auto simp: get_book_def ids_def find_None_iff)

lemma get_book_int64:
  "int64 i \<Longrightarrow> get_book d i = Inr (find (\<lambda>r. b_id r = i) (rows d))"
  by (simp add: get_book_def)

lemma get_book_self:
  assumes "get_book d k = Inr (Some b)"
  shows "get_book d (b_id b) = Inr (Some b)"
  using assms get_book_Some(1) [OF assms] by simp

lemma find_map_keep:
  assumes "\<And>r. b_id (g r) = b_id r"
  shows "find (\<lambda>r. b_id r = i) (map (\<lambda>r. if b_id r = i then g r else r) rs)
         = map_option g (find (\<lambda>r. b_id r = i) rs)"
  using assms by (induction rs) auto


text \<open>A field update of a record that is there, with integers that SQLite takes.\<close>

lemma update_book_get:
  assumes "get_book d i = Inr (Some b)" and "\<not> updates_empty u" and "u_id u = None"
    and "holds (u_quantity u) int64"
  shows "update_book d i u t =
           (\<lparr>rows = map (\<lambda>r. if b_id r = i then set_fields u t r else r) (rows d),
             saved = map (\<lambda>r. if b_id r = i then set_fields u t r else r) (rows d),
             in_txn = False\<rparr>, Inr True)"
    and "get_book (fst (update_book d i u t)) i = Inr (Some (set_fields u t b))"
proof -
  note g = get_book_Some [OF assms(1)]
  have keep: "\<And>r. b_id (set_fields u t r) = b_id r"
    using assms(3) by (simp add: set_fields_def dict_get_def)
  show upd: "update_book d i u t =
           (\<lparr>rows = map (\<lambda>r. if b_id r = i then set_fields u t r else r) (rows d),
             saved = map (\<lambda>r. if b_id r = i then set_fields u t r else r) (rows d),
             in_txn = False\<rparr>, Inr True)"
    using assms(2,3,4) g(3,4)
    by (simp add: update_book_def implicit_begin_def commit_def holds_def Let_def)
  have "find (\<lambda>r. b_id r = i) (rows d) = Some b"
    using assms(1) g(3) by (simp add: get_book_def)
  then show "get_book (fst (update_book d i u t)) i = Inr (Some (set_fields u t b))"
    using g(3) find_map_keep [of "set_fields u t" i "rows d", OF keep]
    by (simp add: upd get_book_def)
qed

text \<open>
  C8, as the code has it. For an id that SQLite takes as an integer (signed 64 bits): when
  a record with the id exists, \<open>delete_book\<close> returns True and \<open>get_book\<close> then finds
  nothing under the id; when none exists, it returns False and the rows of the table are
  as before.
\<close>

theorem delete_book_then_get:
  assumes "int64 book_id"
  shows "(get_book d book_id \<noteq> Inr None \<longrightarrow>
            (\<exists>d'. delete_book Works d book_id = (d', Inr True) \<and>
                  get_book d' book_id = Inr None)) \<and>
         (get_book d book_id = Inr None \<longrightarrow>
            (\<exists>d'. delete_book Works d book_id = (d', Inr False) \<and> rows d' = rows d))"
  using assms
  by (auto simp: delete_book_def commit_def implicit_begin_def get_book_def ids_def
      find_None_iff filter_id_conv Let_def)

theorem delete_book_then_get_witness:
  "get_book (store_3001 1) 3001 \<noteq> Inr None \<and>
   (\<exists>d'. delete_book Works (store_3001 1) 3001 = (d', Inr True) \<and>
         get_book d' 3001 = Inr None) \<and>
   get_book (store_3001 1) 3002 = Inr None \<and>
   (\<exists>d'. delete_book Works (store_3001 1) 3002 = (d', Inr False) \<and>
         rows d' = rows (store_3001 1))"
proof -
  have present: "get_book (store_3001 1) 3001 \<noteq> Inr None"
    by (simp add: get_book_def store_3001_def book_3001_def int64_def)
  have absent: "get_book (store_3001 1) 3002 = Inr None"
    by (simp add: get_book_def store_3001_def book_3001_def int64_def)
  have r1: "int64 3001" and r2: "int64 3002"
    by (simp_all add: int64_def)
  show ?thesis
    using present absent delete_book_then_get [OF r1, of "store_3001 1"]
      delete_book_then_get [OF r2, of "store_3001 1"]
    by blast
qed

text \<open>
  C8 as stated, for every id, fails outside that range: no record has the id \<open>2^63\<close>,
  and neither \<open>get_book\<close> nor \<open>delete_book\<close> returns; both raise \<open>OverflowError\<close>.
\<close>

theorem delete_book_out_of_range:
  "get_book (store_3001 1) (2 ^ 63) = Inl OverflowError \<and>
   snd (delete_book Works (store_3001 1) (2 ^ 63)) = Inl OverflowError"
  by (simp add: get_book_def delete_book_def int64_def Let_def)

text \<open>
  C10. \<open>search_books\<close> without any filter returns every row of the table, as
  \<open>get_all_books\<close> does.
\<close>

theorem search_books_no_filters: "search_books d no_filters = Inr (get_all_books d)"
  by (simp add: search_books_def no_filters_def holds_def get_all_books_def)

text \<open>
  C9, as the code has it. \<open>update_book\<close> of the database handler checks no business
  rule: for a record that is present and a dictionary that supplies at least one of title,
  author, quantity and price, with a quantity that SQLite takes as an integer (signed 64
  bits) and a price that is a finite number, it returns True, the change is committed, and
  the record then carries every supplied value as given, whatever the value is.
\<close>

theorem update_book_no_rules:
  assumes "get_book d book_id = Inr (Some b)" and "\<not> updates_empty u" and "u_id u = None"
    and "holds (u_quantity u) int64"
  shows "\<exists>d' b'. update_book d book_id u t = (d', Inr True) \<and>
           saved d' = rows d' \<and> \<not> in_txn d' \<and>
           get_book d' book_id = Inr (Some b') \<and>
           (\<forall>v. u_title u = Some v \<longrightarrow> title b' = v) \<and>
           (\<forall>v. u_author u = Some v \<longrightarrow> author b' = v) \<and>
           (\<forall>v. u_quantity u = Some v \<longrightarrow> quantity b' = v) \<and>
           (\<forall>v. u_price u = Some v \<longrightarrow> price b' = v)"
  using update_book_get [OF assms, of t] by (simp add: set_fields_def dict_get_def)

theorem update_book_no_rules_witness:
  "\<exists>d' b'. update_book (store_3001 1) 3001
          (no_updates\<lparr>u_title := Some [], u_quantity := Some (- 4), u_price := Some (- 1)\<rparr>) 7
            = (d', Inr True) \<and>
      saved d' = rows d' \<and> \<not> in_txn d' \<and>
      get_book d' 3001 = Inr (Some b') \<and>
      title b' = [] \<and> quantity b' = - 4 \<and> price b' = - 1"
  using update_book_no_rules [of "store_3001 1" 3001 "book_3001 1"
      "no_updates\<lparr>u_title := Some [], u_quantity := Some (- 4), u_price := Some (- 1)\<rparr>" 7]
  by (simp add: get_book_def store_3001_def book_3001_def updates_empty_def no_updates_def
      holds_def int64_def)

text \<open>
  C9 as stated, for any supplied value, fails on a quantity outside the signed 64 bits:
  \<open>update_book\<close> of quantity \<open>2^63\<close> on record 3001 does not return True, it raises
  \<open>OverflowError\<close>, and the rows are as before.
\<close>

theorem update_book_out_of_range:
  "snd (update_book (store_3001 1) 3001 (no_updates\<lparr>u_quantity := Some (2 ^ 63)\<rparr>) 7)
     = Inl OverflowError \<and>
   rows (fst (update_book (store_3001 1) 3001 (no_updates\<lparr>u_quantity := Some (2 ^ 63)\<rparr>) 7))
     = rows (store_3001 1)"
  by (simp add: update_book_def updates_empty_def no_updates_def holds_def int64_def
      implicit_begin_def Let_def)

section \<open>Committing a changeset\<close>

lemmas store_defs =
  add_book_def update_book_def delete_book_def get_book_def ids_def commit_def rollback_def
  begin_transaction_def implicit_begin_def new_row_def set_fields_def dict_get_def holds_def
  int64_def updates_empty_def no_updates_def

text \<open>
  The identifier change without forced failures: on a free new id, with integers that
  SQLite takes and no transaction left open.
\<close>

lemma replace_id_rows:
  assumes "get_book d i = Inr (Some b)" and "u_id u = Some j" and "j \<notin> set (ids d)"
    and "int64 j" and "int64 (dict_get (u_quantity u) (quantity b))" and "\<not> in_txn d"
  shows "apply_updates Works Works d i u t =
           (let rs = filter (\<lambda>r. b_id r \<noteq> i)
                       (rows d @ [\<lparr>b_id = j,
                          title = dict_get (u_title u) (title b),
                          author = dict_get (u_author u) (author b),
                          quantity = dict_get (u_quantity u) (quantity b),
                          price = dict_get (u_price u) (price b),
                          date_added = t, last_updated = t\<rparr>])
            in (\<lparr>rows = rs, saved = rs, in_txn = False\<rparr>, [Updated]))"
  using assms get_book_Some(3) [OF assms(1)]
  by (simp add: apply_updates_def updates_empty_def add_book_def delete_book_def commit_def
      begin_transaction_def implicit_begin_def new_row_def ids_def Let_def)

lemma field_update_result:
  assumes "get_book d i = Inr (Some b)" and "\<not> updates_empty u" and "u_id u = None"
    and "holds (u_quantity u) int64"
  shows "apply_updates Works Works d i u t = (fst (update_book d i u t), [Updated])"
  using assms update_book_get(1) [OF assms, of t]
  by (simp add: apply_updates_def)

text \<open>
  A field update through \<open>_apply_updates\<close> sets \<open>last_updated\<close> to the time of the
  update and keeps \<open>date_added\<close>.
\<close>

lemma field_update_timestamps:
  assumes "get_book d i = Inr (Some b)" and "\<not> updates_empty u" and "u_id u = None"
    and "holds (u_quantity u) int64"
  shows "\<exists>d' b'. apply_updates Works Works d i u t = (d', [Updated]) \<and>
           get_book d' i = Inr (Some b') \<and>
           last_updated b' = t \<and> date_added b' = date_added b"
  using field_update_result [OF assms, of t] update_book_get(2) [OF assms, of t]
  by (simp add: set_fields_def)

text \<open>
  What \<open>_apply_updates\<close> can do to the rows, run without forced failures on a record
  that is there and, for an identifier change, towards a free id: nothing, the rewriting of
  the record's row, or the replacement of its row by a row under the new id.
\<close>

lemma apply_updates_rows:
  assumes "get_book d i = Inr (Some b)" and "\<forall>j. u_id u = Some j \<longrightarrow> j \<notin> set (ids d)"
  shows "rows (fst (apply_updates Works Works d i u t)) = rows d \<or>
         (u_id u = None \<and>
          rows (fst (apply_updates Works Works d i u t)) =
            map (\<lambda>r. if b_id r = i then set_fields u t r else r) (rows d)) \<or>
         (\<exists>j. u_id u = Some j \<and>
          rows (fst (apply_updates Works Works d i u t)) =
            filter (\<lambda>r. b_id r \<noteq> i) (rows d) @
              [\<lparr>b_id = j,
                title = dict_get (u_title u) (title b),
                author = dict_get (u_author u) (author b),
                quantity = dict_get (u_quantity u) (quantity b),
                price = dict_get (u_price u) (price b),
                date_added = t, last_updated = t\<rparr>])"
proof (cases "u_id u")
  case None
  then show ?thesis
    using get_book_Some(4) [OF assms(1)]
    by (auto simp: apply_updates_def update_book_def commit_def implicit_begin_def Let_def
        split: if_splits bool.splits)
next
  case (Some j)
  then have fresh: "j \<notin> set (ids d)" using assms(2) by simp
  have ne: "j \<noteq> i"
    using fresh get_book_Some(4) [OF assms(1)] by auto
  show ?thesis
    using Some fresh ne assms(1) get_book_Some(3) [OF assms(1)]
    by (auto simp: apply_updates_def add_book_def delete_book_def commit_def rollback_def
        begin_transaction_def implicit_begin_def new_row_def ids_def Let_def
        split: if_splits bool.splits)
qed

text \<open>
  C1. The identifier change of \<open>_apply_updates\<close> with the DELETE forced to fail, on the
  table that holds record 3001 alone, changing the id to 3002: \<open>add_book\<close> has committed
  the new row before the DELETE runs, so the rollback of the handler returns to a table that
  holds both rows.
\<close>

theorem apply_updates_delete_fails:
  "apply_updates Works Fails (store_3001 1) 3001 (no_updates\<lparr>u_id := Some 3002\<rparr>) 7 =
     (\<lparr>rows = [book_3001 1, (book_3001 7)\<lparr>b_id := 3002\<rparr>],
       saved = [book_3001 1, (book_3001 7)\<lparr>b_id := 3002\<rparr>],
       in_txn = False\<rparr>, [FailedToUpdateId])"
  by (simp add: apply_updates_def store_defs store_3001_def book_3001_def)

text \<open>
  The other half of C1 holds: when the INSERT fails, the connection is rolled back and,
  no statement being pending before the call, its rows are as they were.
\<close>

lemma apply_updates_insert_fails:
  assumes "saved d = rows d" and "u_id u = Some j"
  shows "rows (fst (apply_updates Fails fd d i u t)) = rows d"
  using assms
  by (auto simp: apply_updates_def updates_empty_def add_book_def rollback_def
      begin_transaction_def implicit_begin_def Let_def
      split: option.splits sum.splits if_splits)

text \<open>
  C6. Record 3001 was added at time 1. Its id is changed to 3002 at time 7, without any
  failure: the row under 3002 has \<open>date_added\<close> 7. (A field update keeps \<open>date_added\<close>:
  \<open>field_update_timestamps\<close>.)
\<close>

theorem date_added_after_id_change:
  "get_book (store_3001 1) 3001 = Inr (Some (book_3001 1)) \<and>
   date_added (book_3001 1) = 1 \<and>
   apply_updates Works Works (store_3001 1) 3001 (no_updates\<lparr>u_id := Some 3002\<rparr>) 7 =
     (\<lparr>rows = [(book_3001 7)\<lparr>b_id := 3002\<rparr>], saved = [(book_3001 7)\<lparr>b_id := 3002\<rparr>],
       in_txn = False\<rparr>, [Updated]) \<and>
   date_added ((book_3001 7)\<lparr>b_id := 3002\<rparr>) = 7"
  by (simp add: apply_updates_def store_defs store_3001_def book_3001_def)

section \<open>One pass over the fields\<close>

text \<open>What each stage of \<open>_process_update_choice\<close> does to the dictionary.\<close>

lemma stage_id:
  assumes "(if P then handle_id_update d b no_updates r else Inr (no_updates, False, []))
             = Inr (u1, c1, m1)"
  shows "u_title u1 = None" and "u_author u1 = None"
    and "u_quantity u1 = None" and "u_price u1 = None"
    and "c1 \<longleftrightarrow> u_id u1 \<noteq> None"
    and "\<forall>j. u_id u1 = Some j \<longrightarrow> 0 < j \<and> j \<noteq> b_id b \<and> j \<notin> set (ids d) \<and> int64 j"
  using assms
  by (auto simp: handle_id_update_def no_updates_def validate_id_def get_book_None
      dest: get_book_Some(1) split: if_splits reply.splits option.splits sum.splits)

lemma stage_title:
  assumes "(if P then handle_title_update d b u1 t else Inr (u1, False, [])) = Inr (u2, c2, m2)"
    and "u_title u1 = None"
  shows "u_id u2 = u_id u1" and "u_author u2 = u_author u1"
    and "u_quantity u2 = u_quantity u1" and "u_price u2 = u_price u1"
    and "c2 \<longleftrightarrow> u_title u2 \<noteq> None"
    and "\<forall>x. u_title u2 = Some x \<longrightarrow>
           is_duplicate_title_author d x (dict_get (u_author u1) (author b)) (Some (b_id b))
             = Inr False"
    and "\<forall>x. u_title u2 = Some x \<longrightarrow> strip x = x"
    and "\<forall>x. u_title u2 = Some x \<longrightarrow> x = strip t"
  using assms
  by (auto simp: handle_title_update_def validate_duplicate_def Let_def strip_strip
      split: if_splits option.splits sum.splits bool.splits)

lemma stage_author:
  assumes "(if P then handle_author_update d b u2 a else Inr (u2, False, [])) = Inr (u3, c3, m3)"
    and "u_author u2 = None"
  shows "u_id u3 = u_id u2" and "u_title u3 = u_title u2"
    and "u_quantity u3 = u_quantity u2" and "u_price u3 = u_price u2"
    and "c3 \<longleftrightarrow> u_author u3 \<noteq> None"
    and "\<forall>x. u_author u3 = Some x \<longrightarrow>
           is_duplicate_title_author d (dict_get (u_title u2) (title b)) x (Some (b_id b))
             = Inr False"
    and "\<forall>x. u_author u3 = Some x \<longrightarrow> strip x = x"
    and "\<forall>x. u_author u3 = Some x \<longrightarrow> x = strip a"
  using assms
  by (auto simp: handle_author_update_def validate_duplicate_def Let_def strip_strip
      split: if_splits option.splits sum.splits bool.splits)

lemma stage_quantity:
  assumes "(if P then handle_quantity_update b u3 r else (u3, False, [])) = (u4, c4, m4)"
    and "u_quantity u3 = None"
  shows "u_id u4 = u_id u3" and "u_title u4 = u_title u3"
    and "u_author u4 = u_author u3" and "u_price u4 = u_price u3"
    and "c4 \<longleftrightarrow> u_quantity u4 \<noteq> None"
  using assms
  by (auto simp: handle_quantity_update_def Let_def
      split: if_splits reply.splits option.splits)

lemma stage_price:
  assumes "(if P then handle_price_update b u4 r else (u4, False, [])) = (u5, c5, m5)"
    and "u_price u4 = None"
  shows "u_id u5 = u_id u4" and "u_title u5 = u_title u4"
    and "u_author u5 = u_author u4" and "u_quantity u5 = u_quantity u4"
    and "c5 \<longleftrightarrow> u_price u5 \<noteq> None"
  using assms
  by (auto simp: handle_price_update_def
      split: if_splits reply.splits option.splits)

lemma all_None_no_updates:
  "u_id u = None \<Longrightarrow> u_title u = None \<Longrightarrow> u_author u = None \<Longrightarrow>
   u_quantity u = None \<Longrightarrow> u_price u = None \<Longrightarrow> u = no_updates"
  by (cases u) (simp add: no_updates_def)

text \<open>
  A pass that does not raise always returns a dictionary: the combined check repeats the
  check that \<open>_handle_author_update\<close> has passed, on the same title and author, so it
  cannot fail. A new id in the dictionary is positive, differs from the book's and is
  free; a new title or author is the stripped reply, and the query has found the pair it
  forms with no other row.
\<close>

lemma process_update_choice_staged:
  "(\<exists>ms e. process_update_choice d b st = (ms, Inl e)) \<or>
   (\<exists>u ms. process_update_choice d b st = (ms, Inr (Some u)) \<and>
     (\<forall>j. u_id u = Some j \<longrightarrow> 0 < j \<and> j \<noteq> b_id b \<and> j \<notin> set (ids d) \<and> int64 j) \<and>
     (u_title u \<noteq> None \<or> u_author u \<noteq> None \<longrightarrow>
        is_duplicate_title_author d (dict_get (u_title u) (title b))
             (dict_get (u_author u) (author b)) (Some (b_id b)) = Inr False) \<and>
     (\<forall>x. u_title u = Some x \<longrightarrow> strip x = x \<and> x = strip (r_title st)) \<and>
     (\<forall>x. u_author u = Some x \<longrightarrow> strip x = x \<and> x = strip (r_author st)))"
proof -
  let ?c = "choice st"
  let ?s1 = "if ?c = ChId \<or> ?c = ChAll then handle_id_update d b no_updates (r_id st)
             else Inr (no_updates, False, [])"
  show ?thesis
  proof (cases ?s1)
    case (Inl e)
    have "process_update_choice d b st = ([], Inl e)"
      unfolding process_update_choice_def Let_def Inl sum.case ..
    then show ?thesis by blast
  next
    case (Inr r1)
    obtain u1 c1 m1 where r1: "r1 = (u1, c1, m1)" by (metis prod_cases3)
    note h1 = Inr [unfolded r1]
    note s1 = stage_id [OF h1]
    let ?s2 = "if ?c = ChTitle \<or> ?c = ChAll then handle_title_update d b u1 (r_title st)
               else Inr (u1, False, [])"
    show ?thesis
    proof (cases ?s2)
      case (Inl e)
      have "process_update_choice d b st = (m1, Inl e)"
        unfolding process_update_choice_def Let_def h1 Inl sum.case prod.case ..
      then show ?thesis by blast
    next
      case (Inr r2)
      obtain u2 c2 m2 where r2: "r2 = (u2, c2, m2)" by (metis prod_cases3)
      note h2 = Inr [unfolded r2]
      note s2 = stage_title [OF h2 s1(1)]
      have a2: "u_author u2 = None" using s1(2) s2(2) by simp
      let ?s3 = "if ?c = ChAuthor \<or> ?c = ChAll then handle_author_update d b u2 (r_author st)
                 else Inr (u2, False, [])"
      show ?thesis
      proof (cases ?s3)
        case (Inl e)
        have "process_update_choice d b st = (m1 @ m2, Inl e)"
          unfolding process_update_choice_def Let_def h1 h2 Inl sum.case prod.case ..
        then show ?thesis by blast
      next
        case (Inr r3)
        obtain u3 c3 m3 where r3: "r3 = (u3, c3, m3)" by (metis prod_cases3)
        note h3 = Inr [unfolded r3]
        note s3 = stage_author [OF h3 a2]
        have q3: "u_quantity u3 = None" using s1(3) s2(3) s3(3) by simp
        obtain u4 c4 m4 where h4:
          "(if ?c = ChQuantity \<or> ?c = ChAll then handle_quantity_update b u3 (r_quantity st)
            else (u3, False, [])) = (u4, c4, m4)"
          by (metis prod_cases3)
        note s4 = stage_quantity [OF h4 q3]
        have p4: "u_price u4 = None" using s1(4) s2(4) s3(4) s4(4) by simp
        obtain u5 c5 m5 where h5:
          "(if ?c = ChPrice \<or> ?c = ChAll then handle_price_update b u4 (r_price st)
            else (u4, False, [])) = (u5, c5, m5)"
          by (metis prod_cases3)
        note s5 = stage_price [OF h5 p4]
        have id5: "u_id u5 = u_id u1" using s2(1) s3(1) s4(1) s5(1) by simp
        have t5: "u_title u5 = u_title u2" using s3(2) s4(2) s5(2) by simp
        have a5: "u_author u5 = u_author u3" using s4(3) s5(3) by simp
        have q5: "u_quantity u5 = u_quantity u4" using s5(4) by simp
        have same: "(if c1 \<or> c2 \<or> c3 \<or> c4 \<or> c5 then u5 else no_updates) = u5"
          using s1(5) s2(5) s3(5) s4(5) s5(5) id5 t5 a5 q5 all_None_no_updates [of u5]
          by auto
        have pair: "u_title u5 \<noteq> None \<or> u_author u5 \<noteq> None \<longrightarrow>
            is_duplicate_title_author d (dict_get (u_title u5) (title b))
                 (dict_get (u_author u5) (author b)) (Some (b_id b)) = Inr False"
        proof (cases "u_author u3")
          case None
          then show ?thesis
            using s2(6) s1(2) t5 a5 by (auto simp: dict_get_def)
        next
          case (Some x)
          then show ?thesis
            using s3(6) t5 a5 by (auto simp: dict_get_def)
        qed
        have "process_update_choice d b st =
          (case (u_title u5, u_author u5) of
             (Some t, Some a) \<Rightarrow>
               (case validate_combined_update d t a (b_id b) of
                  Inl e \<Rightarrow> (m1 @ m2 @ m3 @ m4 @ m5, Inl e)
                | Inr (False, m6) \<Rightarrow> ((m1 @ m2 @ m3 @ m4 @ m5) @ m6, Inr None)
                | Inr (True, m6) \<Rightarrow>
                    ((m1 @ m2 @ m3 @ m4 @ m5) @ m6,
                     Inr (Some (if c1 \<or> c2 \<or> c3 \<or> c4 \<or> c5 then u5 else no_updates))))
           | _ \<Rightarrow> (m1 @ m2 @ m3 @ m4 @ m5,
                   Inr (Some (if c1 \<or> c2 \<or> c3 \<or> c4 \<or> c5 then u5 else no_updates))))"
          unfolding process_update_choice_def Let_def h1 h2 h3 h4 h5 sum.case prod.case ..
        then have "process_update_choice d b st =
          (case (u_title u5, u_author u5) of
             (Some t, Some a) \<Rightarrow>
               (case validate_combined_update d t a (b_id b) of
                  Inl e \<Rightarrow> (m1 @ m2 @ m3 @ m4 @ m5, Inl e)
                | Inr (False, m6) \<Rightarrow> ((m1 @ m2 @ m3 @ m4 @ m5) @ m6, Inr None)
                | Inr (True, m6) \<Rightarrow> ((m1 @ m2 @ m3 @ m4 @ m5) @ m6, Inr (Some u5)))
           | _ \<Rightarrow> (m1 @ m2 @ m3 @ m4 @ m5, Inr (Some u5)))"
          unfolding same .
        then have "\<exists>ms. process_update_choice d b st = (ms, Inr (Some u5))"
          using pair
          by (auto simp: validate_combined_update_def validate_duplicate_def dict_get_def
              split: option.splits)
        then show ?thesis
          using s1(6) id5 pair s2(7,8) s3(7,8) t5 a5 by auto
      qed
    qed
  qed
qed

text \<open>The branch of \<open>_process_update_choice\<close> that discards the changeset is never taken.\<close>

lemma process_update_choice_never_None: "snd (process_update_choice d b st) \<noteq> Inr None"
  using process_update_choice_staged [of d b st] by auto

section \<open>Update sessions\<close>

lemmas model_defs =
  manager_update_book_def prepend_def process_update_choice_def
  handle_id_update_def handle_title_update_def handle_author_update_def
  handle_quantity_update_def handle_price_update_def
  validate_id_def validate_text_def validate_duplicate_def validate_combined_update_def
  is_duplicate_title_author_def apply_updates_def store_defs lower_defs strip_def is_space_def

text \<open>
  C2. The table holds \<open>{1, X, Y}\<close> and \<open>{2, Z, W}\<close>; the session on record 2 chooses
  "Update All", skips the id, the quantity and the price, and answers \<open>X\<close> and \<open>Y\<close>
  to the title and author prompts. The title reply \<open>X\<close> is read as the skip reply, the
  author \<open>Y\<close> is checked against the old title and committed. With \<open>Xa\<close> and \<open>Ya\<close>
  in place of \<open>X\<close> and \<open>Y\<close> the author is refused as a duplicate and the title is
  committed. In both runs the table has changed.
\<close>

theorem title_and_author_of_another_record:
  "manager_update_book (store_xy ''X'' ''Y'') [Value 2] [all_fields ''X'' ''Y'' 7] =
     (\<lparr>rows = [book_xy 1 ''X'' ''Y'', (book_xy 2 ''Z'' ''Y'')\<lparr>last_updated := 7\<rparr>],
       saved = [book_xy 1 ''X'' ''Y'', (book_xy 2 ''Z'' ''Y'')\<lparr>last_updated := 7\<rparr>],
       in_txn = False\<rparr>,
      [Updated, Cancel], Back) \<and>
   manager_update_book (store_xy ''Xa'' ''Ya'') [Value 2] [all_fields ''Xa'' ''Ya'' 7] =
     (\<lparr>rows = [book_xy 1 ''Xa'' ''Ya'', (book_xy 2 ''Xa'' ''W'')\<lparr>last_updated := 7\<rparr>],
       saved = [book_xy 1 ''Xa'' ''Ya'', (book_xy 2 ''Xa'' ''W'')\<lparr>last_updated := 7\<rparr>],
       in_txn = False\<rparr>,
      [Duplicate, Updated, Cancel], Back)"
  by (simp add: model_defs store_xy_def book_xy_def all_fields_def)

text \<open>
  C3. The table holds record 3001 alone, added at time 1. The session selects 3001,
  chooses the id and answers 3002, at time 7. Afterwards \<open>get_book\<close> finds nothing under
  3001, and under 3002 a row with the title, author, quantity and price of the old one and
  \<open>last_updated\<close> 7; its \<open>date_added\<close> is 7 as well, so it is not the original record
  with the new id and the refreshed \<open>last_updated\<close>.
\<close>

theorem change_id_only:
  "manager_update_book (store_3001 1) [Value 3001] [id_only 3002 7] =
     (\<lparr>rows = [(book_3001 7)\<lparr>b_id := 3002\<rparr>], saved = [(book_3001 7)\<lparr>b_id := 3002\<rparr>],
       in_txn = False\<rparr>, [Updated, Cancel], Back) \<and>
   get_book \<lparr>rows = [(book_3001 7)\<lparr>b_id := 3002\<rparr>], saved = [(book_3001 7)\<lparr>b_id := 3002\<rparr>],
             in_txn = False\<rparr> 3001 = Inr None \<and>
   get_book \<lparr>rows = [(book_3001 7)\<lparr>b_id := 3002\<rparr>], saved = [(book_3001 7)\<lparr>b_id := 3002\<rparr>],
             in_txn = False\<rparr> 3002 = Inr (Some ((book_3001 7)\<lparr>b_id := 3002\<rparr>)) \<and>
   (book_3001 7)\<lparr>b_id := 3002\<rparr> =
     (book_3001 1)\<lparr>b_id := 3002, last_updated := 7, date_added := 7\<rparr> \<and>
   (book_3001 7)\<lparr>b_id := 3002\<rparr> \<noteq> (book_3001 1)\<lparr>b_id := 3002, last_updated := 7\<rparr>"
  by (simp add: model_defs store_3001_def book_3001_def id_only_def)

text \<open>Replies that keep a field leave the dictionary as it is, and query nothing.\<close>

lemma echo_id:
  assumes "P \<longrightarrow> keeps_number (b_id b) r"
  shows "\<exists>ms. (if P then handle_id_update d b u r else Inr (u, False, [])) = Inr (u, False, ms)"
  using assms by (auto simp: handle_id_update_def keeps_number_def split: reply.splits)

lemma echo_title:
  assumes "P \<longrightarrow> keeps_text (title b) t" and "strip (title b) = title b"
  shows "\<exists>ms. (if P then handle_title_update d b u t else Inr (u, False, [])) = Inr (u, False, ms)"
  using assms by (auto simp: handle_title_update_def keeps_text_def)

lemma echo_author:
  assumes "P \<longrightarrow> keeps_text (author b) a" and "strip (author b) = author b"
  shows "\<exists>ms. (if P then handle_author_update d b u a else Inr (u, False, [])) = Inr (u, False, ms)"
  using assms by (auto simp: handle_author_update_def keeps_text_def)

lemma echo_quantity:
  assumes "P \<longrightarrow> keeps_number (quantity b) (map_reply int r)"
  shows "\<exists>ms. (if P then handle_quantity_update b u r else (u, False, [])) = (u, False, ms)"
  using assms by (auto simp: handle_quantity_update_def keeps_number_def split: reply.splits)

lemma echo_price:
  assumes "P \<longrightarrow> keeps_number (price b) r"
  shows "\<exists>ms. (if P then handle_price_update b u r else (u, False, [])) = (u, False, ms)"
  using assms by (auto simp: handle_price_update_def keeps_number_def split: reply.splits)

lemma process_echo:
  assumes "echoes b st" and "strip (title b) = title b" and "strip (author b) = author b"
  shows "\<exists>ms. process_update_choice d b st = (ms, Inr (Some no_updates))"
proof -
  let ?c = "choice st"
  have k1: "?c = ChId \<or> ?c = ChAll \<longrightarrow> keeps_number (b_id b) (r_id st)"
    and k2: "?c = ChTitle \<or> ?c = ChAll \<longrightarrow> keeps_text (title b) (r_title st)"
    and k3: "?c = ChAuthor \<or> ?c = ChAll \<longrightarrow> keeps_text (author b) (r_author st)"
    and k4: "?c = ChQuantity \<or> ?c = ChAll \<longrightarrow>
               keeps_number (quantity b) (map_reply int (r_quantity st))"
    and k5: "?c = ChPrice \<or> ?c = ChAll \<longrightarrow> keeps_number (price b) (r_price st)"
    using assms(1) unfolding echoes_def Let_def by blast+
  obtain m1 where h1:
    "(if ?c = ChId \<or> ?c = ChAll then handle_id_update d b no_updates (r_id st)
      else Inr (no_updates, False, [])) = Inr (no_updates, False, m1)"
    using echo_id [OF k1] by blast
  obtain m2 where h2:
    "(if ?c = ChTitle \<or> ?c = ChAll then handle_title_update d b no_updates (r_title st)
      else Inr (no_updates, False, [])) = Inr (no_updates, False, m2)"
    using echo_title [OF k2 assms(2)] by blast
  obtain m3 where h3:
    "(if ?c = ChAuthor \<or> ?c = ChAll then handle_author_update d b no_updates (r_author st)
      else Inr (no_updates, False, [])) = Inr (no_updates, False, m3)"
    using echo_author [OF k3 assms(3)] by blast
  obtain m4 where h4:
    "(if ?c = ChQuantity \<or> ?c = ChAll then handle_quantity_update b no_updates (r_quantity st)
      else (no_updates, False, [])) = (no_updates, False, m4)"
    using echo_quantity [OF k4] by blast
  obtain m5 where h5:
    "(if ?c = ChPrice \<or> ?c = ChAll then handle_price_update b no_updates (r_price st)
      else (no_updates, False, [])) = (no_updates, False, m5)"
    using echo_price [OF k5] by blast
  have none: "u_title no_updates = None"
    by (simp add: no_updates_def)
  have "process_update_choice d b st = (m1 @ m2 @ m3 @ m4 @ m5, Inr (Some no_updates))"
    unfolding process_update_choice_def Let_def h1 h2 h3 h4 h5 sum.case prod.case none
    by simp
  then show ?thesis by blast
qed

text \<open>
  C7. A session on a record whose title and author are stored stripped, as the manager
  stores them: a step whose replies only skip fields or repeat their current values ends
  with the "no changes" message, and the connection, rows and timestamps included, is as
  before the session.
\<close>

theorem unchanged_values_are_no_changes:
  assumes "get_book d (int n) = Inr (Some b)"
    and "strip (title b) = title b" and "strip (author b) = author b"
    and "echoes b st"
  shows "\<exists>ms. manager_update_book d [Value n] [st] = (d, ms @ [NoChanges, Cancel], Back)"
proof -
  obtain ms where "process_update_choice d b st = (ms, Inr (Some no_updates))"
    using process_echo [OF assms(4,2,3)] by blast
  then have "manager_update_book d [Value n] [st] = (d, ms @ [NoChanges, Cancel], Back)"
    using assms(1)
    by (simp add: manager_update_book_def prepend_def updates_empty_def no_updates_def)
  then show ?thesis by blast
qed

theorem unchanged_values_are_no_changes_witness:
  "\<exists>ms. manager_update_book (store_3001 1) [Value 3001]
          [\<lparr>choice = ChQuantity, r_id = Skip, r_title = [], r_author = [],
            r_quantity = Value 5, r_price = Skip, now = 7\<rparr>]
        = (store_3001 1, ms @ [NoChanges, Cancel], Back)"
  using unchanged_values_are_no_changes [of "store_3001 1" 3001 "book_3001 1"
      "\<lparr>choice = ChQuantity, r_id = Skip, r_title = [], r_author = [],
        r_quantity = Value 5, r_price = Skip, now = 7\<rparr>"]
  by (simp add: store_3001_def book_3001_def get_book_def echoes_def keeps_number_def
      strip_def is_space_def int64_def)

section \<open>The primary key and the natural key\<close>

lemma fst_prepend [simp]: "fst (prepend ms r) = fst r"
  by (cases r) (simp add: prepend_def)








section \<open>The manager's operations on the rows\<close>

text \<open>
  A pass of the add loop leaves the rows as they are, or appends a row under a free id
  made of the stripped replies, after the query has found no row with its natural key.
\<close>

lemma add_attempt_rows:
  "rows (fst (add_attempt d a)) = rows d \<or>
   (\<exists>data. is_duplicate_title_author d (d_title data) (d_author data) None = Inr False \<and>
      d_title data = strip (a_title a) \<and> d_author data = strip (a_author a) \<and>
      d_id data \<notin> set (ids d) \<and>
      rows (fst (add_attempt d a)) = rows d @ [new_row data (a_now a)])"
proof (cases "\<exists>n q p. a_id a = Value n \<and> validate_id d (int n) None = Inr None \<and>
    py_lower (a_title a) \<noteq> ''x'' \<and> validate_text (a_title a) = None \<and>
    py_lower (a_author a) \<noteq> ''x'' \<and> validate_text (a_author a) = None \<and>
    validate_duplicate d (strip (a_title a)) (strip (a_author a)) None = Inr None \<and>
    a_quantity a = Value q \<and> validate_quantity (int q) = None \<and>
    a_price a = Value p \<and> validate_price p = None")
  case True
  then obtain n q p where v: "a_id a = Value n" "validate_id d (int n) None = Inr None"
    "py_lower (a_title a) \<noteq> ''x''" "validate_text (a_title a) = None"
    "py_lower (a_author a) \<noteq> ''x''" "validate_text (a_author a) = None"
    "validate_duplicate d (strip (a_title a)) (strip (a_author a)) None = Inr None"
    "a_quantity a = Value q" "validate_quantity (int q) = None"
    "a_price a = Value p" "validate_price p = None"
    by blast
  let ?data = "\<lparr>d_id = int n, d_title = strip (a_title a), d_author = strip (a_author a),
              d_quantity = int q, d_price = p\<rparr>"
  have e: "fst (add_attempt d a) = fst (add_book Works d ?data (a_now a))"
    using v by (auto simp: add_attempt_def split: prod.splits sum.splits bool.splits)
  have nd: "is_duplicate_title_author d (d_title ?data) (d_author ?data) None = Inr False"
    using v(7) by (auto simp: validate_duplicate_def split: sum.splits bool.splits)
  have fresh: "d_id ?data \<notin> set (ids d)"
    using v(2) by (auto simp: validate_id_def get_book_None split: if_splits sum.splits option.splits)
  have "rows (fst (add_book Works d ?data (a_now a))) = rows d \<or>
        rows (fst (add_book Works d ?data (a_now a))) = rows d @ [new_row ?data (a_now a)]"
    by (simp add: add_book_def implicit_begin_def commit_def Let_def)
  then show ?thesis
    using e nd fresh by (metis book_data.select_convs(2,3))
next
  case False
  then have "fst (add_attempt d a) = d"
    by (auto simp: add_attempt_def split: reply.splits option.splits sum.splits)
  then show ?thesis by simp
qed







lemma get_book_to_update_found:
  "get_book_to_update d sel = (ms, Inr (Some b)) \<Longrightarrow> get_book d (b_id b) = Inr (Some b)"
proof (induction sel arbitrary: ms)
  case Nil
  then show ?case by simp
next
  case (Cons r rs)
  then show ?case
    by (cases r) (auto split: prod.splits option.splits sum.splits dest: get_book_self)
qed


section \<open>Stripped texts\<close>

lemma texts_stripped_rows: "rows d' = rows d \<Longrightarrow> texts_stripped d' = texts_stripped d"
  by (simp add: texts_stripped_def)

lemma add_attempt_texts:
  assumes "texts_stripped d"
  shows "texts_stripped (fst (add_attempt d a))"
  using add_attempt_rows [of d a]
proof (elim disjE exE conjE)
  assume "rows (fst (add_attempt d a)) = rows d"
  then show ?thesis using assms texts_stripped_rows by blast
next
  fix data
  assume dt: "d_title data = strip (a_title a)" and da: "d_author data = strip (a_author a)"
    and rs: "rows (fst (add_attempt d a)) = rows d @ [new_row data (a_now a)]"
  show ?thesis
    using assms dt da by (simp add: texts_stripped_def rs new_row_def strip_strip)
qed

lemma manager_add_book_texts:
  "texts_stripped d \<Longrightarrow> texts_stripped (fst (manager_add_book d as))"
proof (induction as arbitrary: d)
  case Nil
  then show ?case by simp
next
  case (Cons a as)
  obtain d1 ms go where r: "add_attempt d a = (d1, ms, go)"
    by (metis prod_cases3)
  have k: "texts_stripped d1"
    using add_attempt_texts [OF Cons.prems, of a] r by simp
  show ?case
    using r k Cons.IH [OF k] by (cases go) simp_all
qed

lemma delete_attempt_texts:
  assumes "texts_stripped d"
  shows "texts_stripped (fst (delete_attempt d a))"
proof -
  have "rows (fst (delete_attempt d a)) = rows d \<or>
        (\<exists>i. rows (fst (delete_attempt d a)) = filter (\<lambda>r. b_id r \<noteq> i) (rows d))"
    by (auto simp: delete_attempt_def delete_book_def implicit_begin_def commit_def Let_def
        split: reply.splits option.splits sum.splits bool.splits)
  then show ?thesis
    using assms by (auto simp: texts_stripped_def)
qed

lemma manager_delete_book_texts:
  "texts_stripped d \<Longrightarrow> texts_stripped (fst (manager_delete_book d as))"
proof (induction as arbitrary: d)
  case Nil
  then show ?case by simp
next
  case (Cons a as)
  obtain d1 ms go where r: "delete_attempt d a = (d1, ms, go)"
    by (metis prod_cases3)
  have k: "texts_stripped d1"
    using delete_attempt_texts [OF Cons.prems, of a] r by simp
  show ?case
    using r k Cons.IH [OF k] by (cases go) simp_all
qed

lemma apply_updates_texts:
  assumes ts: "texts_stripped d" and g: "get_book d i = Inr (Some b)"
    and idp: "\<forall>j. u_id u = Some j \<longrightarrow> j \<notin> set (ids d)"
    and st: "\<forall>x. u_title u = Some x \<longrightarrow> strip x = x"
    and sa: "\<forall>x. u_author u = Some x \<longrightarrow> strip x = x"
  shows "texts_stripped (fst (apply_updates Works Works d i u t))"
proof -
  let ?d' = "fst (apply_updates Works Works d i u t)"
  have "b \<in> set (rows d)" using get_book_Some(2) [OF g] .
  then have sb: "strip (title b) = title b" "strip (author b) = author b"
    using ts by (simp_all add: texts_stripped_def)
  show ?thesis
    using apply_updates_rows [OF g idp, of t]
  proof (elim disjE exE conjE)
    assume "rows ?d' = rows d"
    then show ?thesis using ts texts_stripped_rows by blast
  next
    assume rs: "rows ?d' = map (\<lambda>r. if b_id r = i then set_fields u t r else r) (rows d)"
    show ?thesis
      using ts st sa
      by (auto simp: texts_stripped_def rs set_fields_def dict_get_def split: option.splits)
  next
    fix j
    assume rs: "rows ?d' = filter (\<lambda>r. b_id r \<noteq> i) (rows d) @
              [\<lparr>b_id = j,
                title = dict_get (u_title u) (title b),
                author = dict_get (u_author u) (author b),
                quantity = dict_get (u_quantity u) (quantity b),
                price = dict_get (u_price u) (price b),
                date_added = t, last_updated = t\<rparr>]"
    show ?thesis
      using ts st sa sb
      by (auto simp: texts_stripped_def rs dict_get_def split: option.splits)
  qed
qed

lemma update_loop_texts:
  "texts_stripped d \<Longrightarrow> (\<forall>b. bo = Some b \<longrightarrow> get_book d (b_id b) = Inr (Some b)) \<Longrightarrow>
   texts_stripped (fst (update_loop d bo sts))"
proof (induction sts arbitrary: d bo)
  case Nil
  then show ?case by (cases bo) simp_all
next
  case (Cons st sts)
  show ?case
  proof (cases bo)
    case None
    then show ?thesis using Cons.prems by simp
  next
    case (Some b)
    then have g: "get_book d (b_id b) = Inr (Some b)" using Cons.prems(2) by simp
    show ?thesis
      using process_update_choice_staged [of d b st]
    proof (elim disjE exE conjE)
      fix ms e
      assume "process_update_choice d b st = (ms, Inl e)"
      then show ?thesis using Some Cons.prems(1) by simp
    next
      fix u ms
      assume p: "process_update_choice d b st = (ms, Inr (Some u))"
        and idq: "\<forall>j. u_id u = Some j \<longrightarrow>
                    0 < j \<and> j \<noteq> b_id b \<and> j \<notin> set (ids d) \<and> int64 j"
        and st: "\<forall>x. u_title u = Some x \<longrightarrow> strip x = x \<and> x = strip (r_title st)"
        and sa: "\<forall>x. u_author u = Some x \<longrightarrow> strip x = x \<and> x = strip (r_author st)"
      show ?thesis
      proof (cases "updates_empty u")
        case True
        then show ?thesis
          using Some p Cons.IH [OF Cons.prems(1), of "Some b"] g by simp
      next
        case False
        obtain d1 ms1 where ap: "apply_updates Works Works d (b_id b) u (now st) = (d1, ms1)"
          by (cases "apply_updates Works Works d (b_id b) u (now st)") simp
        have idp: "\<forall>j. u_id u = Some j \<longrightarrow> j \<notin> set (ids d)"
          using idq by simp
        have st': "\<forall>x. u_title u = Some x \<longrightarrow> strip x = x" using st by simp
        have sa': "\<forall>x. u_author u = Some x \<longrightarrow> strip x = x" using sa by simp
        have k: "texts_stripped d1"
          using apply_updates_texts [OF Cons.prems(1) g idp st' sa', of "now st"] ap by simp
        show ?thesis
        proof (cases "get_book d1 (dict_get (u_id u) (b_id b))")
          case (Inl e)
          then show ?thesis using Some p False ap k by simp
        next
          case (Inr refreshed)
          have snap: "\<forall>b'. refreshed = Some b' \<longrightarrow> get_book d1 (b_id b') = Inr (Some b')"
            using Inr get_book_self by blast
          show ?thesis
            using Some p False ap Inr Cons.IH [OF k snap] by simp
        qed
      qed
    qed
  qed
qed

text \<open>
  Every title and author the manager writes is stripped: adding, deleting and updating
  books keep a table of stripped texts so, however the run ends.
\<close>

lemma manager_keeps_texts_stripped:
  assumes "texts_stripped d"
  shows "texts_stripped (fst (manager_add_book d adds))"
    and "texts_stripped (fst (manager_delete_book d dels))"
    and "texts_stripped (fst (manager_update_book d sel sts))"
proof -
  show "texts_stripped (fst (manager_add_book d adds))"
    using assms by (rule manager_add_book_texts)
  show "texts_stripped (fst (manager_delete_book d dels))"
    using assms by (rule manager_delete_book_texts)
  show "texts_stripped (fst (manager_update_book d sel sts))"
  proof (cases "get_book_to_update d sel")
    case (Pair ms r)
    show ?thesis
    proof (cases r)
      case (Inl e)
      then show ?thesis using Pair assms by (simp add: manager_update_book_def)
    next
      case (Inr bo)
      show ?thesis
      proof (cases bo)
        case None
        then show ?thesis using Pair Inr assms by (simp add: manager_update_book_def)
      next
        case (Some b)
        then have "get_book d (b_id b) = Inr (Some b)"
          using Pair Inr get_book_to_update_found by simp
        then show ?thesis
          using Pair Inr Some update_loop_texts [OF assms, of "Some b" sts]
          by (simp add: manager_update_book_def)
      qed
    qed
  qed
qed

section \<open>The natural key through the manager\<close>








text \<open>
  Two runs that the statement above leaves out. With a capital letter outside ASCII in a
  stored title, SQLite's \<open>lower()\<close> keeps it and Python's \<open>lower()\<close> does not: the
  query misses the duplicate and the manager adds it. And the forced failure of C1 leaves
  the old and the new row, with one natural key.
\<close>

lemma add_flow_misses_capital_outside_ascii:
  "manager_add_book
     \<lparr>rows = [book_xy 1 [CHR 0xC9] ''B''], saved = [book_xy 1 [CHR 0xC9] ''B''],
      in_txn = False\<rparr>
     [\<lparr>a_id = Value 2, a_title = [CHR 0xC9], a_author = ''B'', a_quantity = Value 1,
       a_price = Value 1, a_now = 7\<rparr>] =
   (\<lparr>rows = [book_xy 1 [CHR 0xC9] ''B'',
             \<lparr>b_id = 2, title = [CHR 0xC9], author = ''B'', quantity = 1, price = 1,
              date_added = 7, last_updated = 7\<rparr>],
     saved = [book_xy 1 [CHR 0xC9] ''B'',
              \<lparr>b_id = 2, title = [CHR 0xC9], author = ''B'', quantity = 1, price = 1,
               date_added = 7, last_updated = 7\<rparr>],
     in_txn = False\<rparr>, [Added], Back)"
  by (simp add: add_attempt_def validate_id_def validate_text_def validate_duplicate_def
      validate_quantity_def validate_price_def is_duplicate_title_author_def book_xy_def
      lower_defs store_defs strip_def is_space_def)

lemma failed_delete_breaks_natural_key:
  "\<not> natural_key_unique
       (fst (apply_updates Works Fails (store_3001 1) 3001 (no_updates\<lparr>u_id := Some 3002\<rparr>) 7))"
  by (simp add: natural_key_unique_def apply_updates_def store_defs store_3001_def
      book_3001_def lower_defs)

end
